theory Spec2Isabelle
  imports Main "HOL-Library.Word"
begin

unbundle bit_operations_syntax

section \<open>Machine types and code memory\<close>

text \<open>
  The header \<^verbatim>\<open>nativeInst_x86.hpp\<close> overlays typed views on raw code bytes of a 64-bit
  x86 process. An \<^verbatim>\<open>address\<close> is a byte pointer, so pointer arithmetic is arithmetic
  modulo \<open>2 ^ 64\<close>; \<^verbatim>\<open>jint\<close> and \<^verbatim>\<open>int32_t\<close> are 32-bit two's complement words;
  \<^verbatim>\<open>intptr_t\<close> and \<^verbatim>\<open>oop\<close> are pointer sized. Memory is a total map from addresses
  to bytes, multi-byte values are little endian.
\<close>

type_synonym address = "64 word"
type_synonym u_char = "8 word"
type_synonym jint = "32 word"
type_synonym intptr_t = "64 word"
type_synonym oop = "64 word"
type_synonym memory = "address \<Rightarrow> u_char"

definition load_jint :: "memory \<Rightarrow> address \<Rightarrow> jint" where
  "load_jint m a =
     ucast (m a) OR push_bit 8 (ucast (m (a + 1))) OR
     push_bit 16 (ucast (m (a + 2))) OR push_bit 24 (ucast (m (a + 3)))"

definition store_jint :: "memory \<Rightarrow> address \<Rightarrow> jint \<Rightarrow> memory" where
  "store_jint m a v =
     m(a := ucast v, a + 1 := ucast (drop_bit 8 v),
       a + 2 := ucast (drop_bit 16 v), a + 3 := ucast (drop_bit 24 v))"

definition load_intptr :: "memory \<Rightarrow> address \<Rightarrow> intptr_t" where
  "load_intptr m a =
     ucast (m a) OR push_bit 8 (ucast (m (a + 1))) OR
     push_bit 16 (ucast (m (a + 2))) OR push_bit 24 (ucast (m (a + 3))) OR
     push_bit 32 (ucast (m (a + 4))) OR push_bit 40 (ucast (m (a + 5))) OR
     push_bit 48 (ucast (m (a + 6))) OR push_bit 56 (ucast (m (a + 7)))"

definition store_intptr :: "memory \<Rightarrow> address \<Rightarrow> intptr_t \<Rightarrow> memory" where
  "store_intptr m a v =
     m(a := ucast v, a + 1 := ucast (drop_bit 8 v),
       a + 2 := ucast (drop_bit 16 v), a + 3 := ucast (drop_bit 24 v),
       a + 4 := ucast (drop_bit 32 v), a + 5 := ucast (drop_bit 40 v),
       a + 6 := ucast (drop_bit 48 v), a + 7 := ucast (drop_bit 56 v))"

text \<open>
  A byte sequence laid out at a base address, over a background memory: the way the
  concrete instruction encodings below are written down.
\<close>

fun bytes_at :: "address \<Rightarrow> u_char list \<Rightarrow> memory \<Rightarrow> memory" where
  "bytes_at a [] m = m"
| "bytes_at a (b # bs) m = (bytes_at (a + 1) bs m)(a := b)"

definition zero_memory :: memory where
  "zero_memory = (\<lambda>a. 0)"

subsection \<open>Effects: stores and the instruction-cache hook\<close>

text \<open>
  A setter of the view performs a raw store and then calls \<^verbatim>\<open>wrote(offset)\<close>. Both
  are effects, recorded in program order in a log beside the memory.
\<close>

datatype event = MemWrite address nat | ICacheWrote address int

record code_state =
  mem :: memory
  events :: "event list"

definition store_u_char :: "address \<Rightarrow> u_char \<Rightarrow> code_state \<Rightarrow> code_state" where
  "store_u_char a c s = s\<lparr>mem := (mem s)(a := c), events := events s @ [MemWrite a 1]\<rparr>"

definition store_jint_at :: "address \<Rightarrow> jint \<Rightarrow> code_state \<Rightarrow> code_state" where
  "store_jint_at a i s = s\<lparr>mem := store_jint (mem s) a i, events := events s @ [MemWrite a 4]\<rparr>"

definition store_intptr_at :: "address \<Rightarrow> intptr_t \<Rightarrow> code_state \<Rightarrow> code_state" where
  "store_intptr_at a p s =
     s\<lparr>mem := store_intptr (mem s) a p, events := events s @ [MemWrite a 8]\<rparr>"

text \<open>
  Fatal outcomes: \<^verbatim>\<open>guarantee\<close> is checked in every build, \<^verbatim>\<open>assert\<close> only in a build
  with \<^verbatim>\<open>ASSERT\<close> defined. A failure stops the VM; the state it stopped in is kept so that
  what had been written by then can be read off.
\<close>

datatype vm_error = GuaranteeFailed string | AssertFailed string

type_synonym 'a fallible = "(vm_error \<times> code_state) + 'a"

section \<open>Constants declared outside the header\<close>

text \<open>
  Modelled from the spec: the enumerations \<^verbatim>\<open>Assembler::Prefix\<close> and
  \<^verbatim>\<open>Assembler::PrefixBits\<close> live in \<^verbatim>\<open>asm/assembler.hpp\<close>, which the header only
  includes. The spec names the prefixes (REX, REX-extended-base, wide REX, REX2); the
  values are the x86-64 encodings of those prefixes.
\<close>

definition Assembler_REX :: u_char where "Assembler_REX = 0x40"
definition Assembler_REX_B :: u_char where "Assembler_REX_B = 0x41"
definition Assembler_REX_W :: u_char where "Assembler_REX_W = 0x48"
definition Assembler_REX_WB :: u_char where "Assembler_REX_WB = 0x49"
definition Assembler_REX2 :: u_char where "Assembler_REX2 = 0xD5"
definition Assembler_REX2BIT_W :: u_char where "Assembler_REX2BIT_W = 0x08"
definition Assembler_REX2BIT_WB :: u_char where "Assembler_REX2BIT_WB = 0x09"
definition Assembler_REX2BIT_WB4 :: u_char where "Assembler_REX2BIT_WB4 = 0x18"

text \<open>
  Modelled from the spec: \<^verbatim>\<open>wordSize\<close> is a global constant of the VM, the size of a
  machine word in bytes; the spec's immediate load carries a full-width (8 byte) constant.
\<close>

definition wordSize :: int where "wordSize = 8"

definition nullptr :: address where "nullptr = 0"

section \<open>NativeInstruction\<close>

text \<open>A view is the address it was cast from (\<^verbatim>\<open>this\<close>); offsets are C \<^verbatim>\<open>int\<close>s.\<close>

definition addr_at :: "address \<Rightarrow> int \<Rightarrow> address" where
  "addr_at this offset = this + word_of_int offset"

definition ubyte_at :: "memory \<Rightarrow> address \<Rightarrow> int \<Rightarrow> u_char" where
  "ubyte_at m this offset = m (addr_at this offset)"

definition int_at :: "memory \<Rightarrow> address \<Rightarrow> int \<Rightarrow> jint" where
  "int_at m this offset = load_jint m (addr_at this offset)"

definition ptr_at :: "memory \<Rightarrow> address \<Rightarrow> int \<Rightarrow> intptr_t" where
  "ptr_at m this offset = load_intptr m (addr_at this offset)"

definition oop_at :: "memory \<Rightarrow> address \<Rightarrow> int \<Rightarrow> oop" where
  "oop_at m this offset = load_intptr m (addr_at this offset)"

text \<open>
  Modelled from the spec: \<^verbatim>\<open>NativeInstruction::wrote\<close> is only declared in the header.
  The spec describes it as the instruction-cache coherency hook, invoked as
  \<^verbatim>\<open>wrote(offset)\<close> after a write; the header's comment says it does nothing else on
  Intel. The model records the invocation.
\<close>

definition wrote :: "address \<Rightarrow> int \<Rightarrow> code_state \<Rightarrow> code_state" where
  "wrote this offset s = s\<lparr>events := events s @ [ICacheWrote this offset]\<rparr>"

definition set_char_at :: "address \<Rightarrow> int \<Rightarrow> u_char \<Rightarrow> code_state \<Rightarrow> code_state" where
  "set_char_at this offset c s = wrote this offset (store_u_char (addr_at this offset) c s)"

definition set_int_at :: "address \<Rightarrow> int \<Rightarrow> jint \<Rightarrow> code_state \<Rightarrow> code_state" where
  "set_int_at this offset i s = wrote this offset (store_jint_at (addr_at this offset) i s)"

definition set_ptr_at :: "address \<Rightarrow> int \<Rightarrow> intptr_t \<Rightarrow> code_state \<Rightarrow> code_state" where
  "set_ptr_at this offset p s = wrote this offset (store_intptr_at (addr_at this offset) p s)"

definition set_oop_at :: "address \<Rightarrow> int \<Rightarrow> oop \<Rightarrow> code_state \<Rightarrow> code_state" where
  "set_oop_at this offset o' s = wrote this offset (store_intptr_at (addr_at this offset) o' s)"

definition has_rex2_prefix :: "memory \<Rightarrow> address \<Rightarrow> bool" where
  "has_rex2_prefix m this = (ubyte_at m this 0 = Assembler_REX2)"

section \<open>NativeCall\<close>

definition NativeCall_instruction_code :: u_char where "NativeCall_instruction_code = 0xE8"
definition NativeCall_instruction_size :: int where "NativeCall_instruction_size = 5"
definition NativeCall_displacement_offset :: int where "NativeCall_displacement_offset = 1"
definition NativeCall_return_address_offset :: int where "NativeCall_return_address_offset = 5"

definition NativeCall_displacement :: "memory \<Rightarrow> address \<Rightarrow> jint" where
  "NativeCall_displacement m this = int_at m this NativeCall_displacement_offset"

definition NativeCall_return_address :: "address \<Rightarrow> address" where
  "NativeCall_return_address this = addr_at this NativeCall_return_address_offset"

text \<open>
  Modelled from the spec: \<^verbatim>\<open>NativeCall::destination\<close> is only declared in the header.
  The spec's data model gives \<^verbatim>\<open>destination = return_address + displacement\<close>; adding
  a \<^verbatim>\<open>jint\<close> to a pointer sign-extends it.
\<close>

definition NativeCall_destination :: "memory \<Rightarrow> address \<Rightarrow> address" where
  "NativeCall_destination m this =
     NativeCall_return_address this + scast (NativeCall_displacement m this)"

text \<open>
  \<^verbatim>\<open>intptr_t disp = dest - return_address();\<close> is a pointer difference, a 64-bit signed
  value; \<^verbatim>\<open>(intptr_t)(jint)disp\<close> truncates it to 32 bits and sign-extends it back.
\<close>

definition NativeCall_set_destination ::
    "address \<Rightarrow> address \<Rightarrow> code_state \<Rightarrow> code_state fallible" where
  "NativeCall_set_destination this dest s =
     (let disp = dest - NativeCall_return_address this :: intptr_t in
      if disp \<noteq> scast (ucast disp :: jint)
      then Inl (GuaranteeFailed ''must be 32-bit offset'', s)
      else Inr (set_int_at this NativeCall_displacement_offset
                  (ucast (dest - NativeCall_return_address this)) s))"

section \<open>NativeCallReg\<close>

definition NativeCallReg_instruction_code :: u_char where "NativeCallReg_instruction_code = 0xFF"

section \<open>NativeMovConstReg\<close>

definition rex_size :: int where "rex_size = 1"
definition rex2_size :: int where "rex2_size = 2"

definition instruction_size_rex :: int where "instruction_size_rex = 1 + rex_size + wordSize"
definition instruction_size_rex2 :: int where "instruction_size_rex2 = 1 + rex2_size + wordSize"
definition data_offset_rex :: int where "data_offset_rex = 1 + rex_size"
definition data_offset_rex2 :: int where "data_offset_rex2 = 1 + rex2_size"
definition next_instruction_offset_rex :: int where
  "next_instruction_offset_rex = instruction_size_rex"
definition next_instruction_offset_rex2 :: int where
  "next_instruction_offset_rex2 = instruction_size_rex2"
definition register_mask :: u_char where "register_mask = 0x07"

definition NativeMovConstReg_instruction_size :: "memory \<Rightarrow> address \<Rightarrow> int" where
  "NativeMovConstReg_instruction_size m this =
     (if has_rex2_prefix m this then instruction_size_rex2 else instruction_size_rex)"

definition next_inst_offset :: "memory \<Rightarrow> address \<Rightarrow> int" where
  "next_inst_offset m this =
     (if has_rex2_prefix m this then next_instruction_offset_rex2
      else next_instruction_offset_rex)"

definition data_byte_offset :: "memory \<Rightarrow> address \<Rightarrow> int" where
  "data_byte_offset m this =
     (if has_rex2_prefix m this then data_offset_rex2 else data_offset_rex)"

definition NativeMovConstReg_next_instruction_address :: "memory \<Rightarrow> address \<Rightarrow> address" where
  "NativeMovConstReg_next_instruction_address m this = addr_at this (next_inst_offset m this)"

definition NativeMovConstReg_data :: "memory \<Rightarrow> address \<Rightarrow> intptr_t" where
  "NativeMovConstReg_data m this = ptr_at m this (data_byte_offset m this)"

definition NativeMovConstReg_set_data ::
    "address \<Rightarrow> intptr_t \<Rightarrow> code_state \<Rightarrow> code_state" where
  "NativeMovConstReg_set_data this x s = set_ptr_at this (data_byte_offset (mem s) this) x s"

section \<open>NativeJump\<close>

definition NativeJump_instruction_code :: u_char where "NativeJump_instruction_code = 0xE9"
definition NativeJump_data_offset :: int where "NativeJump_data_offset = 1"
definition NativeJump_next_instruction_offset :: int where
  "NativeJump_next_instruction_offset = 5"

definition NativeJump_next_instruction_address :: "address \<Rightarrow> address" where
  "NativeJump_next_instruction_address this = addr_at this NativeJump_next_instruction_offset"

text \<open>
  The first statement of \<^verbatim>\<open>jump_destination\<close>:
  \<^verbatim>\<open>address dest = (int_at(data_offset)+next_instruction_address());\<close>, the destination
  as stored in the instruction.
\<close>

definition stored_destination :: "memory \<Rightarrow> address \<Rightarrow> address" where
  "stored_destination m this =
     scast (int_at m this NativeJump_data_offset) + NativeJump_next_instruction_address this"

definition jump_destination :: "memory \<Rightarrow> address \<Rightarrow> address" where
  "jump_destination m this =
     (let dest = stored_destination m this in
      if dest = this then - 1 else dest)"

text \<open>\<^verbatim>\<open>labs\<close> on a 64-bit \<^verbatim>\<open>long\<close>; the negation wraps at the most negative value.\<close>

definition labs :: "intptr_t \<Rightarrow> intptr_t" where
  "labs v = (if sint v < 0 then - v else v)"

text \<open>The flag \<open>ASSERT\<close> says whether the build checks \<^verbatim>\<open>assert\<close>.\<close>

definition set_jump_destination ::
    "bool \<Rightarrow> address \<Rightarrow> address \<Rightarrow> code_state \<Rightarrow> code_state fallible" where
  "set_jump_destination ASSERT this dest s =
     (let val = dest - NativeJump_next_instruction_address this :: intptr_t;
          val = (if dest = - 1 then - 5 else val)
      in if ASSERT \<and> \<not> (labs val AND 0xFFFFFFFF00000000 = 0 \<or> dest = - 1)
         then Inl (AssertFailed ''must be 32bit offset or -1'', s)
         else Inr (set_int_at this NativeJump_data_offset (ucast val) s))"

section \<open>NativeTstRegMem and the classifiers\<close>

definition instruction_rex_b_prefix :: u_char where
  "instruction_rex_b_prefix = Assembler_REX_B"
definition instruction_code_memXregl :: u_char where "instruction_code_memXregl = 0x85"
definition modrm_mask :: u_char where "modrm_mask = 0x38"
definition modrm_reg :: u_char where "modrm_reg = 0x00"

definition is_call :: "memory \<Rightarrow> address \<Rightarrow> bool" where
  "is_call m this = (ubyte_at m this 0 = NativeCall_instruction_code)"

definition is_call_reg :: "memory \<Rightarrow> address \<Rightarrow> bool" where
  "is_call_reg m this =
     (ubyte_at m this 0 = NativeCallReg_instruction_code \<or>
      (ubyte_at m this 1 = NativeCallReg_instruction_code \<and>
       (ubyte_at m this 0 = Assembler_REX \<or> ubyte_at m this 0 = Assembler_REX_B)))"

definition is_safepoint_poll :: "memory \<Rightarrow> address \<Rightarrow> bool" where
  "is_safepoint_poll m this =
     (let has_rex_prefix = (ubyte_at m this 0 = instruction_rex_b_prefix);
          test_offset = (if has_rex2_prefix m this then 2 else (if has_rex_prefix then 1 else 0));
          is_test_opcode = (ubyte_at m this test_offset = instruction_code_memXregl);
          is_rax_target = (ubyte_at m this (test_offset + 1) AND modrm_mask = modrm_reg)
      in is_test_opcode \<and> is_rax_target)"

definition is_mov_literal64 :: "memory \<Rightarrow> address \<Rightarrow> bool" where
  "is_mov_literal64 m this =
     (let valid_rex_prefix =
            (ubyte_at m this 0 = Assembler_REX_W \<or> ubyte_at m this 0 = Assembler_REX_WB);
          valid_rex2_prefix =
            (ubyte_at m this 0 = Assembler_REX2 \<and>
             (ubyte_at m this 1 = Assembler_REX2BIT_W \<or>
              ubyte_at m this 1 = Assembler_REX2BIT_WB \<or>
              ubyte_at m this 1 = Assembler_REX2BIT_WB4));
          opcode = (if has_rex2_prefix m this then ubyte_at m this 2 else ubyte_at m this 1)
      in (valid_rex_prefix \<or> valid_rex2_prefix) \<and>
         opcode AND (0xFF XOR register_mask) = 0xB8)"

section \<open>NativePostCallNop\<close>

definition NativePostCallNop_displacement_offset :: int where
  "NativePostCallNop_displacement_offset = 4"

definition check :: "memory \<Rightarrow> address \<Rightarrow> bool" where
  "check m this = (int_at m this 0 = 0x841f0f)"

text \<open>
  \<^verbatim>\<open>decode\<close> writes through two reference parameters; the model takes their values
  before the call and returns the result with their values after it. \<^verbatim>\<open>data >> 24\<close>
  shifts a signed \<^verbatim>\<open>int32_t\<close>, an arithmetic shift.
\<close>

definition decode :: "memory \<Rightarrow> address \<Rightarrow> jint \<Rightarrow> jint \<Rightarrow> bool \<times> jint \<times> jint" where
  "decode m this oopmap_slot cb_offset =
     (let data = int_at m this NativePostCallNop_displacement_offset in
      if data = 0 then (False, oopmap_slot, cb_offset)
      else (let cb_offset = data AND 0xffffff;
                oopmap_slot = signed_drop_bit 24 data AND 0xff
            in (True, oopmap_slot, cb_offset)))"

definition nativePostCallNop_at :: "memory \<Rightarrow> address \<Rightarrow> address" where
  "nativePostCallNop_at m a = (let nop = a in if check m nop then nop else nullptr)"

section \<open>Concrete encodings\<close>

text \<open>Byte sequences at address \<open>0x1000\<close> on which the statements below are evaluated.\<close>

definition state_of :: "memory \<Rightarrow> code_state" where
  "state_of m = \<lparr>mem = m, events = []\<rparr>"

definition initial_state :: code_state where
  "initial_state = state_of zero_memory"

text \<open>\<^verbatim>\<open>nopl\<close> slots: an empty payload, the payload \<open>(5 << 24) | 0x123\<close>, a payload with
  the top bit set, and a slot whose fourth byte (the SIB byte) is not zero.\<close>

definition absent_slot :: memory where
  "absent_slot = bytes_at 0x1000 [0x0F, 0x1F, 0x84, 0x00, 0x00, 0x00, 0x00, 0x00] zero_memory"

definition slot_123_5 :: memory where
  "slot_123_5 = bytes_at 0x1000 [0x0F, 0x1F, 0x84, 0x00, 0x23, 0x01, 0x00, 0x05] zero_memory"

definition slot_high :: memory where
  "slot_high = bytes_at 0x1000 [0x0F, 0x1F, 0x84, 0x00, 0x01, 0x00, 0x00, 0xFF] zero_memory"

definition slot_sib1 :: memory where
  "slot_sib1 = bytes_at 0x1000 [0x0F, 0x1F, 0x84, 0x01, 0x00, 0x00, 0x00, 0x00] zero_memory"

text \<open>\<^verbatim>\<open>jmp\<close> with displacement \<open>-4102\<close>: from \<open>0x1000\<close> it encodes the address \<open>-1\<close>.\<close>

definition jump_to_minus_1 :: memory where
  "jump_to_minus_1 = bytes_at 0x1000 [0xE9, 0xFA, 0xEF, 0xFF, 0xFF] zero_memory"

text \<open>Safepoint polls \<^verbatim>\<open>test %eax, (reg)\<close> without prefix, with the REX-extended-base prefix
  and with a REX2 prefix, and a \<^verbatim>\<open>test %ecx, (%r10)\<close> that is not a poll.\<close>

definition poll_plain :: memory where
  "poll_plain = bytes_at 0x1000 [0x85, 0x00] zero_memory"

definition poll_rex_b :: memory where
  "poll_rex_b = bytes_at 0x1000 [0x41, 0x85, 0x02] zero_memory"

definition poll_rex2 :: memory where
  "poll_rex2 = bytes_at 0x1000 [0xD5, 0x10, 0x85, 0x00] zero_memory"

definition test_ecx :: memory where
  "test_ecx = bytes_at 0x1000 [0x41, 0x85, 0x0A] zero_memory"

text \<open>Indirect calls \<^verbatim>\<open>call *%rax\<close>, \<^verbatim>\<open>call *%r10\<close>, \<^verbatim>\<open>call *%rax\<close> under an empty REX
  prefix, and a direct call.\<close>

definition call_rax :: memory where
  "call_rax = bytes_at 0x1000 [0xFF, 0xD0] zero_memory"

definition call_r10 :: memory where
  "call_r10 = bytes_at 0x1000 [0x41, 0xFF, 0xD2] zero_memory"

definition call_rex_rax :: memory where
  "call_rex_rax = bytes_at 0x1000 [0x40, 0xFF, 0xD0] zero_memory"

definition call_rel32 :: memory where
  "call_rel32 = bytes_at 0x1000 [0xE8, 0x00, 0x00, 0x00, 0x00] zero_memory"

text \<open>\<^verbatim>\<open>mov $0, %rax\<close> with a 64-bit immediate, under REX.W and under REX2 with W set.\<close>

definition mov_rex :: memory where
  "mov_rex = bytes_at 0x1000 [0x48, 0xB8, 0, 0, 0, 0, 0, 0, 0, 0] zero_memory"

definition mov_rex2 :: memory where
  "mov_rex2 = bytes_at 0x1000 [0xD5, 0x08, 0xB8, 0, 0, 0, 0, 0, 0, 0, 0] zero_memory"

text \<open>A jump to itself (displacement \<open>-5\<close>) and a jump sixteen bytes forward.\<close>

definition jump_to_self :: memory where
  "jump_to_self = bytes_at 0x1000 [0xE9, 0xFB, 0xFF, 0xFF, 0xFF] zero_memory"

definition jump_forward :: memory where
  "jump_forward = bytes_at 0x1000 [0xE9, 0x10, 0x00, 0x00, 0x00] zero_memory"

section \<open>Memory lemmas\<close>

lemma addr_at_0: "addr_at this 0 = this"
  by (simp add: addr_at_def)

lemma addr_at_numeral: "addr_at this (numeral k) = this + numeral k"
  by (simp add: addr_at_def)

lemma addr_at_1: "addr_at this 1 = this + 1"
  by (simp add: addr_at_def)

lemma jint_bytes:
  "ucast (ucast (v::jint) :: u_char) OR push_bit 8 (ucast (ucast (drop_bit 8 v) :: u_char)) OR
   push_bit 16 (ucast (ucast (drop_bit 16 v) :: u_char)) OR
   push_bit 24 (ucast (ucast (drop_bit 24 v) :: u_char)) = v" (is "?lhs = v")
proof (rule bit_word_eqI)
  fix n assume "n < LENGTH(32)"
  then have n: "n < 32" by simp
  consider "n < 8" | "8 \<le> n" "n < 16" | "16 \<le> n" "n < 24" | "24 \<le> n"
    by linarith
  then show "bit ?lhs n = bit v n"
    using n by cases (auto simp add: bit_simps)
qed

lemma load_store_jint: "load_jint (store_jint m a v) a = v"
  by (simp add: load_jint_def store_jint_def jint_bytes)

lemma jint_byte0:
  "ucast (ucast (b0::u_char) OR push_bit 8 (ucast (b1::u_char)) OR
     push_bit 16 (ucast (b2::u_char)) OR push_bit 24 (ucast (b3::u_char)) :: jint) = b0"
  by (rule bit_word_eqI) (auto simp add: bit_simps dest: bit_imp_le_length)

lemma jint_byte1:
  "ucast (drop_bit 8 (ucast (b0::u_char) OR push_bit 8 (ucast (b1::u_char)) OR
     push_bit 16 (ucast (b2::u_char)) OR push_bit 24 (ucast (b3::u_char)) :: jint)) = b1"
  by (rule bit_word_eqI) (auto simp add: bit_simps dest: bit_imp_le_length)

lemma jint_byte2:
  "ucast (drop_bit 16 (ucast (b0::u_char) OR push_bit 8 (ucast (b1::u_char)) OR
     push_bit 16 (ucast (b2::u_char)) OR push_bit 24 (ucast (b3::u_char)) :: jint)) = b2"
  by (rule bit_word_eqI) (auto simp add: bit_simps dest: bit_imp_le_length)

lemma jint_byte3:
  "ucast (drop_bit 24 (ucast (b0::u_char) OR push_bit 8 (ucast (b1::u_char)) OR
     push_bit 16 (ucast (b2::u_char)) OR push_bit 24 (ucast (b3::u_char)) :: jint)) = b3"
  by (rule bit_word_eqI) (auto simp add: bit_simps dest: bit_imp_le_length)

text \<open>A little-endian word is determined by its four bytes.\<close>

lemma load_jint_eq_iff:
  "load_jint m a = v \<longleftrightarrow>
     m a = ucast v \<and> m (a + 1) = ucast (drop_bit 8 v) \<and>
     m (a + 2) = ucast (drop_bit 16 v) \<and> m (a + 3) = ucast (drop_bit 24 v)"
proof
  assume "load_jint m a = v"
  then have v: "v = load_jint m a" by simp
  show "m a = ucast v \<and> m (a + 1) = ucast (drop_bit 8 v) \<and>
     m (a + 2) = ucast (drop_bit 16 v) \<and> m (a + 3) = ucast (drop_bit 24 v)"
    unfolding v load_jint_def
    by (simp only: jint_byte0 jint_byte1 jint_byte2 jint_byte3)
next
  assume "m a = ucast v \<and> m (a + 1) = ucast (drop_bit 8 v) \<and>
     m (a + 2) = ucast (drop_bit 16 v) \<and> m (a + 3) = ucast (drop_bit 24 v)"
  then show "load_jint m a = v"
    by (simp add: load_jint_def jint_bytes)
qed

lemma int_at_absent_slot: "int_at absent_slot 0x1000 4 = 0"
  by (simp add: absent_slot_def int_at_def addr_at_numeral load_jint_def zero_memory_def)

lemma int_at_slot_123_5: "int_at slot_123_5 0x1000 4 = 0x05000123"
  by (simp add: slot_123_5_def int_at_def addr_at_numeral load_jint_def zero_memory_def)

lemma int_at_slot_high: "int_at slot_high 0x1000 4 = 0xFF000001"
  by (simp add: slot_high_def int_at_def addr_at_numeral load_jint_def zero_memory_def)

lemma bit_low_byte:
  "bit (ucast (ucast (v::intptr_t) :: u_char) :: intptr_t) n \<longleftrightarrow> n < 8 \<and> bit v n"
  by (auto simp add: bit_simps dest: bit_imp_le_length)

lemma bit_shifted_byte:
  "bit (push_bit j (ucast (ucast (drop_bit j (v::intptr_t)) :: u_char)) :: intptr_t) n \<longleftrightarrow>
     j \<le> n \<and> n < j + 8 \<and> bit v n"
  by (auto simp add: bit_simps dest: bit_imp_le_length)

lemma intptr_bytes:
  "ucast (ucast (v::intptr_t) :: u_char) OR push_bit 8 (ucast (ucast (drop_bit 8 v) :: u_char)) OR
     push_bit 16 (ucast (ucast (drop_bit 16 v) :: u_char)) OR
     push_bit 24 (ucast (ucast (drop_bit 24 v) :: u_char)) OR
     push_bit 32 (ucast (ucast (drop_bit 32 v) :: u_char)) OR
     push_bit 40 (ucast (ucast (drop_bit 40 v) :: u_char)) OR
     push_bit 48 (ucast (ucast (drop_bit 48 v) :: u_char)) OR
     push_bit 56 (ucast (ucast (drop_bit 56 v) :: u_char)) = v" (is "?lhs = v")
proof (rule bit_word_eqI)
  fix n assume "n < LENGTH(64)"
  then have n: "n < 64" by simp
  have "bit ?lhs n \<longleftrightarrow> bit v n \<and> n < 64"
    unfolding bit_or_iff bit_low_byte bit_shifted_byte by (cases "bit v n"; simp; arith)
  then show "bit ?lhs n = bit v n"
    using n by simp
qed

lemma load_store_intptr: "load_intptr (store_intptr m a v) a = v"
  by (simp add: load_intptr_def store_intptr_def intptr_bytes)

text \<open>A pointer stored two or three bytes above an address leaves the byte there alone.\<close>

lemma store_intptr_below:
  "store_intptr m (a + 2) v a = m a" "store_intptr m (a + 3) v a = m a"
  by (simp_all add: store_intptr_def)

lemma mem_set_int_at:
  "mem (set_int_at this offset i s) = store_jint (mem s) (addr_at this offset) i"
  by (simp add: set_int_at_def wrote_def store_jint_at_def)

lemma int_at_set_int_at: "int_at (mem (set_int_at this offset i s)) this offset = i"
  by (simp add: mem_set_int_at int_at_def load_store_jint)

lemma mem_set_ptr_at:
  "mem (set_ptr_at this offset p s) = store_intptr (mem s) (addr_at this offset) p"
  by (simp add: set_ptr_at_def wrote_def store_intptr_at_def)

subsection \<open>Truncation to 32 bits and sign extension\<close>

lemma sint_scast_jint: "sint (scast (w :: jint) :: intptr_t) = sint w"
  by (rule sint_up_scast) (simp add: is_up)

lemma sint_jint_range: "- (2 ^ 31) \<le> sint (w :: jint) \<and> sint w < 2 ^ 31"
  using sint_ge[of w] sint_lt[of w] by simp

lemma scast_ucast_fits:
  assumes "- (2 ^ 31) \<le> sint (d::intptr_t)" "sint d < 2 ^ 31"
  shows "scast (ucast d :: jint) = d"
proof -
  have "(ucast d :: jint) = ucast (word_of_int (sint d) :: intptr_t)" by simp
  also have "\<dots> = word_of_int (sint d)"
    by (rule ucast_down_wi) (simp add: is_down)
  finally have u: "(ucast d :: jint) = word_of_int (sint d)" .
  have "sint (word_of_int (sint d) :: jint) = signed_take_bit (LENGTH(32) - 1) (sint d)"
    by (rule sint_sbintrunc')
  also have "\<dots> = sint d"
    using assms by (simp add: signed_take_bit_int_eq_self)
  finally have "sint (word_of_int (sint d) :: jint) = sint d" .
  then have "scast (ucast d :: jint) = (word_of_int (sint d) :: intptr_t)"
    by (simp only: u scast_eq)
  then show ?thesis by simp
qed

text \<open>The test of the \<^verbatim>\<open>guarantee\<close>: a 64-bit difference survives the round trip through
  \<^verbatim>\<open>jint\<close> exactly when it lies in the signed 32-bit range.\<close>

lemma sext_trunc_iff:
  "(d :: intptr_t) = scast (ucast d :: jint) \<longleftrightarrow> - (2 ^ 31) \<le> sint d \<and> sint d < 2 ^ 31"
proof
  assume "d = scast (ucast d :: jint)"
  then have "sint d = sint (ucast d :: jint)"
    using sint_scast_jint[of "ucast d"] by simp
  then show "- (2 ^ 31) \<le> sint d \<and> sint d < 2 ^ 31"
    using sint_jint_range[of "ucast d"] by simp
next
  assume "- (2 ^ 31) \<le> sint d \<and> sint d < 2 ^ 31"
  then show "d = scast (ucast d :: jint)"
    using scast_ucast_fits[of d] by simp
qed

section \<open>Classifier claims\<close>

text \<open>
  Claim C8. \<^verbatim>\<open>is_call_reg\<close> holds exactly when the first byte is the indirect-call
  opcode \<open>0xFF\<close>, or the first byte is the REX prefix (\<open>0x40\<close>) or the REX-extended-base
  prefix (\<open>0x41\<close>) and the byte after it is \<open>0xFF\<close>.
\<close>

theorem is_call_reg_iff:
  "is_call_reg m this \<longleftrightarrow>
     m this = 0xFF \<or> ((m this = 0x40 \<or> m this = 0x41) \<and> m (this + 1) = 0xFF)"
  by (auto simp add: is_call_reg_def ubyte_at_def addr_at_0 addr_at_1
      NativeCallReg_instruction_code_def Assembler_REX_def Assembler_REX_B_def)

theorem is_call_reg_iff_witness:
  "is_call_reg call_rax 0x1000 \<and> is_call_reg call_r10 0x1000 \<and>
   is_call_reg call_rex_rax 0x1000 \<and> \<not> is_call_reg call_rel32 0x1000"
  using is_call_reg_iff [of call_rax "0x1000"] is_call_reg_iff [of call_r10 "0x1000"]
    is_call_reg_iff [of call_rex_rax "0x1000"] is_call_reg_iff [of call_rel32 "0x1000"]
  by (simp add: call_rax_def call_r10_def call_rex_rax_def call_rel32_def zero_memory_def)

text \<open>
  Claim C4. \<^verbatim>\<open>is_safepoint_poll\<close> skips two bytes when the first byte is the REX2
  prefix, one byte when it is the REX-extended-base prefix and none otherwise, and then
  holds exactly when the byte there is the test opcode \<open>0x85\<close> and the ModRM byte after it,
  masked with \<open>0x38\<close>, is \<open>0\<close> (rax).
\<close>

theorem is_safepoint_poll_iff:
  "is_safepoint_poll m this \<longleftrightarrow>
     (if m this = 0xD5 then m (this + 2) = 0x85 \<and> m (this + 3) AND 0x38 = 0
      else if m this = 0x41 then m (this + 1) = 0x85 \<and> m (this + 2) AND 0x38 = 0
      else m this = 0x85 \<and> m (this + 1) AND 0x38 = 0)"
  by (simp add: is_safepoint_poll_def has_rex2_prefix_def ubyte_at_def addr_at_0 addr_at_1
      addr_at_numeral instruction_rex_b_prefix_def instruction_code_memXregl_def
      modrm_mask_def modrm_reg_def Assembler_REX2_def Assembler_REX_B_def)

theorem is_safepoint_poll_iff_witness:
  "is_safepoint_poll poll_plain 0x1000 \<and> is_safepoint_poll poll_rex_b 0x1000 \<and>
   is_safepoint_poll poll_rex2 0x1000 \<and> \<not> is_safepoint_poll test_ecx 0x1000"
  using is_safepoint_poll_iff [of poll_plain "0x1000"] is_safepoint_poll_iff [of poll_rex_b "0x1000"]
    is_safepoint_poll_iff [of poll_rex2 "0x1000"] is_safepoint_poll_iff [of test_ecx "0x1000"]
  by (simp add: poll_plain_def poll_rex_b_def poll_rex2_def test_ecx_def zero_memory_def)

section \<open>Post-call metadata slot claims\<close>

lemma mask_8_jint: "(0xff :: jint) = mask 8"
  by (simp add: mask_eq_exp_minus_1)

lemma mask_24_jint: "(0xffffff :: jint) = mask 24"
  by (simp add: mask_eq_exp_minus_1)

text \<open>The arithmetic shift followed by the mask is the top byte of the word.\<close>

lemma decode_oopmap_slot_bits: "signed_drop_bit 24 (d::jint) AND 0xff = drop_bit 24 d"
  unfolding mask_8_jint
  by (rule bit_word_eqI) (auto simp add: bit_simps dest: bit_imp_le_length)

lemma decode_cb_offset_bits: "(d::jint) AND 0xffffff = take_bit 24 d"
  unfolding mask_24_jint by (simp add: take_bit_eq_mask)

text \<open>
  Claim C5. \<^verbatim>\<open>decode\<close> of an all-zero payload word (the \<^verbatim>\<open>jint\<close> at offset 4) returns
  false; \<^verbatim>\<open>decode\<close> of any other payload returns true with \<open>cb_offset\<close> the bits 0-23
  and \<open>oopmap_slot\<close> the bits 24-31 of the payload; the payload \<open>(5 << 24) | 0x123\<close>
  decodes to \<open>cb_offset = 0x000123\<close> and \<open>oopmap_slot = 0x05\<close>. The result triple is the
  returned flag, \<open>oopmap_slot\<close> and \<open>cb_offset\<close>.
\<close>

theorem decode_payload:
  "(int_at m this 4 = 0 \<longrightarrow> fst (decode m this oopmap_slot cb_offset) = False) \<and>
   (int_at m this 4 \<noteq> 0 \<longrightarrow>
      decode m this oopmap_slot cb_offset =
        (True, drop_bit 24 (int_at m this 4), take_bit 24 (int_at m this 4))) \<and>
   (int_at m this 4 = push_bit 24 5 OR 0x123 \<longrightarrow>
      decode m this oopmap_slot cb_offset = (True, 0x05, 0x000123))"
  by (simp add: decode_def NativePostCallNop_displacement_offset_def Let_def
      decode_oopmap_slot_bits decode_cb_offset_bits)

theorem decode_payload_witness:
  "fst (decode absent_slot 0x1000 7 9) = False \<and>
   decode slot_high 0x1000 7 9 = (True, 0xFF, 0x000001) \<and>
   decode slot_123_5 0x1000 7 9 = (True, 0x05, 0x000123)"
  using decode_payload [of absent_slot "0x1000" "7" "9"]
    decode_payload [of slot_high "0x1000" "7" "9"]
    decode_payload [of slot_123_5 "0x1000" "7" "9"]
  by (simp add: int_at_absent_slot int_at_slot_123_5 int_at_slot_high)

text \<open>
  Claim C10. When the payload word is zero, \<^verbatim>\<open>decode\<close> returns false and both
  reference parameters keep the values they had before the call.
\<close>

theorem decode_absent_frame:
  "int_at m this 4 = 0 \<Longrightarrow>
   decode m this oopmap_slot cb_offset = (False, oopmap_slot, cb_offset)"
  by (simp add: decode_def NativePostCallNop_displacement_offset_def)

theorem decode_absent_frame_witness:
  "int_at absent_slot 0x1000 4 = 0 \<and>
   decode absent_slot 0x1000 0x2A 0x77 = (False, 0x2A, 0x77)"
  using decode_absent_frame [of absent_slot "0x1000" "0x2A" "0x77"]
  by (simp add: int_at_absent_slot)

lemma check_bytes:
  "check m this \<longleftrightarrow>
     m this = 0x0F \<and> m (this + 1) = 0x1F \<and> m (this + 2) = 0x84 \<and> m (this + 3) = 0x00"
proof -
  have "(ucast (0x841f0f :: jint) :: u_char) = 0x0F"
    "(ucast (drop_bit 8 (0x841f0f :: jint)) :: u_char) = 0x1F"
    "(ucast (drop_bit 16 (0x841f0f :: jint)) :: u_char) = 0x84"
    "(ucast (drop_bit 24 (0x841f0f :: jint)) :: u_char) = 0x00"
    by simp_all
  then show ?thesis
    by (simp only: check_def int_at_def addr_at_0 load_jint_eq_iff)
qed

text \<open>
  Claim C6, as the spec states it, fails: \<^verbatim>\<open>check\<close> compares the whole \<^verbatim>\<open>jint\<close> at
  offset 0, four bytes, with \<open>0x841f0f\<close>. A slot whose first three bytes are
  \<open>0x0F, 0x1F, 0x84\<close> and whose fourth byte is \<open>0x01\<close> is rejected.
\<close>

theorem check_three_bytes_counterexample:
  "slot_sib1 0x1000 = 0x0F \<and> slot_sib1 (0x1000 + 1) = 0x1F \<and> slot_sib1 (0x1000 + 2) = 0x84 \<and>
   \<not> check slot_sib1 0x1000 \<and> nativePostCallNop_at slot_sib1 0x1000 = nullptr"
  by (simp add: slot_sib1_def check_bytes nativePostCallNop_at_def zero_memory_def)

text \<open>
  Claim C6, amended. \<^verbatim>\<open>check\<close> succeeds exactly when the four bytes at offset 0 are
  \<open>0x0F, 0x1F, 0x84, 0x00\<close>, the little-endian word \<open>0x00841F0F\<close>;
  \<^verbatim>\<open>nativePostCallNop_at\<close> returns the view when \<^verbatim>\<open>check\<close> succeeds and the null
  pointer otherwise.
\<close>

theorem check_four_bytes:
  "(check m a \<longleftrightarrow>
      m a = 0x0F \<and> m (a + 1) = 0x1F \<and> m (a + 2) = 0x84 \<and> m (a + 3) = 0x00) \<and>
   nativePostCallNop_at m a = (if check m a then a else nullptr)"
  using check_bytes [of m a] by (simp add: nativePostCallNop_at_def)

theorem check_four_bytes_witness:
  "check absent_slot 0x1000 \<and> nativePostCallNop_at absent_slot 0x1000 = 0x1000 \<and>
   \<not> check slot_sib1 0x1000 \<and> nativePostCallNop_at slot_sib1 0x1000 = nullptr"
  using check_four_bytes [of absent_slot "0x1000"] check_four_bytes [of slot_sib1 "0x1000"]
  by (simp add: absent_slot_def slot_sib1_def zero_memory_def)

section \<open>Setter claims\<close>

text \<open>
  Claim C9. Each of the four setters of the view (\<^verbatim>\<open>set_char_at\<close>, \<^verbatim>\<open>set_int_at\<close>,
  \<^verbatim>\<open>set_ptr_at\<close>, \<^verbatim>\<open>set_oop_at\<close>), for every offset and every value, performs its store
  and then invokes the hook \<^verbatim>\<open>wrote(offset)\<close>: the log grows by exactly the store followed by
  the hook call with the same offset, and the stored value is what the matching reader
  returns afterwards.
\<close>

theorem setters_invoke_wrote:
  "events (set_char_at this offset c s) =
     events s @ [MemWrite (addr_at this offset) 1, ICacheWrote this offset] \<and>
   events (set_int_at this offset i s) =
     events s @ [MemWrite (addr_at this offset) 4, ICacheWrote this offset] \<and>
   events (set_ptr_at this offset p s) =
     events s @ [MemWrite (addr_at this offset) 8, ICacheWrote this offset] \<and>
   events (set_oop_at this offset ob s) =
     events s @ [MemWrite (addr_at this offset) 8, ICacheWrote this offset] \<and>
   ubyte_at (mem (set_char_at this offset c s)) this offset = c \<and>
   int_at (mem (set_int_at this offset i s)) this offset = i \<and>
   ptr_at (mem (set_ptr_at this offset p s)) this offset = p \<and>
   oop_at (mem (set_oop_at this offset ob s)) this offset = ob"
  by (simp add: set_char_at_def set_int_at_def set_ptr_at_def set_oop_at_def wrote_def
      store_u_char_def store_jint_at_def store_intptr_at_def
      ubyte_at_def int_at_def ptr_at_def oop_at_def load_store_jint load_store_intptr)

theorem setters_invoke_wrote_witness:
  "events (set_char_at 0x1000 0 0xE8 initial_state) =
     [MemWrite 0x1000 1, ICacheWrote 0x1000 0] \<and>
   events (set_int_at 0x1000 1 0x12345678 initial_state) =
     [MemWrite 0x1001 4, ICacheWrote 0x1000 1] \<and>
   events (set_ptr_at 0x1000 2 0x1122334455667788 initial_state) =
     [MemWrite 0x1002 8, ICacheWrote 0x1000 2] \<and>
   events (set_oop_at 0x1000 2 0x1122334455667788 initial_state) =
     [MemWrite 0x1002 8, ICacheWrote 0x1000 2] \<and>
   int_at (mem (set_int_at 0x1000 1 0x12345678 initial_state)) 0x1000 1 = 0x12345678"
  using setters_invoke_wrote [of "0x1000" 0 "0xE8" initial_state]
    setters_invoke_wrote [of "0x1000" 1 _ initial_state "0x12345678"]
    setters_invoke_wrote
      [of "0x1000" 2 _ initial_state _ "0x1122334455667788" "0x1122334455667788"]
  by (simp add: initial_state_def state_of_def addr_at_0 addr_at_1 addr_at_numeral)

section \<open>NativeCall claims\<close>

text \<open>
  Claim C1. The displacement of a target is the pointer difference
  \<open>dest - (this + 5)\<close>, a signed 64-bit value. When it lies in the signed 32-bit range,
  \<^verbatim>\<open>set_destination(dest)\<close> succeeds and \<^verbatim>\<open>destination()\<close> then returns \<open>dest\<close>. When it
  does not, \<^verbatim>\<open>set_destination\<close> stops with the \<^verbatim>\<open>guarantee\<close> failure in the state it was
  called in: nothing has been written.
\<close>

theorem set_destination_roundtrip:
  "(- (2 ^ 31) \<le> sint (dest - (this + 5)) \<and> sint (dest - (this + 5)) < 2 ^ 31 \<longrightarrow>
      (\<exists>s'. NativeCall_set_destination this dest s = Inr s' \<and>
            NativeCall_destination (mem s') this = dest)) \<and>
   (\<not> (- (2 ^ 31) \<le> sint (dest - (this + 5)) \<and> sint (dest - (this + 5)) < 2 ^ 31) \<longrightarrow>
      NativeCall_set_destination this dest s =
        Inl (GuaranteeFailed ''must be 32-bit offset'', s))"
proof -
  have ra: "NativeCall_return_address this = this + 5"
    by (simp add: NativeCall_return_address_def NativeCall_return_address_offset_def
        addr_at_numeral)
  show ?thesis
  proof (cases "- (2 ^ 31) \<le> sint (dest - (this + 5)) \<and> sint (dest - (this + 5)) < 2 ^ 31")
    case True
    then have fit: "scast (ucast (dest - (this + 5)) :: jint) = dest - (this + 5)"
      using scast_ucast_fits[of "dest - (this + 5)"] by simp
    have "NativeCall_set_destination this dest s =
        Inr (set_int_at this NativeCall_displacement_offset (ucast (dest - (this + 5))) s)"
      by (simp add: NativeCall_set_destination_def ra fit)
    moreover have "NativeCall_destination
        (mem (set_int_at this NativeCall_displacement_offset (ucast (dest - (this + 5))) s))
        this = dest"
      by (simp add: NativeCall_destination_def NativeCall_displacement_def
          int_at_set_int_at ra fit)
    ultimately show ?thesis using True by simp
  next
    case False
    then have "dest - (this + 5) \<noteq> scast (ucast (dest - (this + 5)) :: jint)"
      using sext_trunc_iff[of "dest - (this + 5)"] by simp
    then show ?thesis using False by (simp add: NativeCall_set_destination_def ra)
  qed
qed

text \<open>A call at \<open>0x1000\<close>: the target \<open>0x2000\<close> is in range, the target
  \<open>0x80001005\<close> is \<open>2 ^ 31\<close> bytes past the return address and is refused.\<close>

theorem set_destination_roundtrip_witness:
  "(\<exists>s'. NativeCall_set_destination 0x1000 0x2000 initial_state = Inr s' \<and>
         NativeCall_destination (mem s') 0x1000 = 0x2000) \<and>
   NativeCall_set_destination 0x1000 0x80001005 initial_state =
     Inl (GuaranteeFailed ''must be 32-bit offset'', initial_state)"
  using set_destination_roundtrip [of "0x2000" "0x1000" initial_state]
    set_destination_roundtrip [of "0x80001005" "0x1000" initial_state]
  by simp

section \<open>NativeJump claims\<close>

lemma NativeJump_next_instruction_address_eq:
  "NativeJump_next_instruction_address this = this + 5"
  by (simp add: NativeJump_next_instruction_address_def NativeJump_next_instruction_offset_def
      addr_at_numeral)

lemma stored_destination_eq:
  "stored_destination m this = scast (int_at m this 1) + (this + 5)"
  by (simp add: stored_destination_def NativeJump_next_instruction_address_eq
      NativeJump_data_offset_def)

text \<open>
  Claim C2, as the spec states it, fails in one direction: \<^verbatim>\<open>jump_destination\<close> also
  returns \<open>-1\<close> when the stored destination is the address \<open>-1\<close> itself, which is not the
  jump's own address. The jump at \<open>0x1000\<close> with displacement \<open>-4102\<close> is such a jump.
\<close>

theorem jump_destination_sentinel_counterexample:
  "jump_destination jump_to_minus_1 0x1000 = - 1 \<and>
   scast (int_at jump_to_minus_1 0x1000 1) + (0x1000 + 5) \<noteq> (0x1000 :: address)"
proof -
  have "int_at jump_to_minus_1 0x1000 1 = 0xFFFFEFFA"
    by (simp add: jump_to_minus_1_def int_at_def addr_at_1 load_jint_def zero_memory_def)
  then show ?thesis
    by (simp add: jump_destination_def stored_destination_eq Let_def)
qed

text \<open>
  Claim C2, amended. \<^verbatim>\<open>jump_destination\<close> returns the sentinel \<open>-1\<close> exactly when the
  stored destination (the sign-extended displacement at offset 1 plus the next-instruction
  address \<open>this + 5\<close>) is the jump's own address or is the address \<open>-1\<close> itself; and
  \<^verbatim>\<open>set_jump_destination(-1)\<close> succeeds, in a build with or without \<^verbatim>\<open>assert\<close>, writes the
  displacement \<open>-5\<close>, and a following \<^verbatim>\<open>jump_destination\<close> returns \<open>-1\<close>.
\<close>

theorem jump_destination_sentinel:
  "(jump_destination m this = - 1 \<longleftrightarrow>
      scast (int_at m this 1) + (this + 5) = this \<or>
      scast (int_at m this 1) + (this + 5) = - 1) \<and>
   (\<exists>s'. set_jump_destination ASSERT this (- 1) s = Inr s' \<and>
         int_at (mem s') this 1 = - 5 \<and>
         jump_destination (mem s') this = - 1)"
proof -
  have a: "jump_destination m this = - 1 \<longleftrightarrow>
      scast (int_at m this 1) + (this + 5) = this \<or>
      scast (int_at m this 1) + (this + 5) = - 1"
    by (auto simp add: jump_destination_def stored_destination_eq Let_def)
  have u5: "(ucast (- 5 :: intptr_t) :: jint) = - 5" by simp
  have "set_jump_destination ASSERT this (- 1) s =
      Inr (set_int_at this 1 (ucast (- 5 :: intptr_t)) s)"
    by (simp add: set_jump_destination_def NativeJump_data_offset_def Let_def)
  then have b: "set_jump_destination ASSERT this (- 1) s = Inr (set_int_at this 1 (- 5) s)"
    by (simp only: u5)
  have c: "int_at (mem (set_int_at this 1 (- 5) s)) this 1 = - 5"
    by (rule int_at_set_int_at)
  have d: "jump_destination (mem (set_int_at this 1 (- 5) s)) this = - 1"
    by (simp add: jump_destination_def stored_destination_eq c Let_def)
  from a b c d show ?thesis by simp
qed

theorem jump_destination_sentinel_witness:
  "jump_destination jump_to_self 0x1000 = - 1 \<and>
   jump_destination jump_forward 0x1000 \<noteq> - 1 \<and>
   (\<exists>s'. set_jump_destination True 0x1000 (- 1) (state_of jump_forward) = Inr s' \<and>
         int_at (mem s') 0x1000 1 = - 5 \<and> jump_destination (mem s') 0x1000 = - 1)"
proof -
  have a: "int_at jump_to_self 0x1000 1 = 0xFFFFFFFB"
    by (simp add: jump_to_self_def int_at_def addr_at_1 load_jint_def zero_memory_def)
  have b: "int_at jump_forward 0x1000 1 = 0x10"
    by (simp add: jump_forward_def int_at_def addr_at_1 load_jint_def zero_memory_def)
  show ?thesis
    using jump_destination_sentinel [of jump_to_self "0x1000" True "state_of jump_forward"]
      jump_destination_sentinel [of jump_forward "0x1000" True "state_of jump_forward"]
    by (simp add: a b)
qed

section \<open>NativeMovConstReg claims\<close>

lemma prefix_after_set_data: "mem (NativeMovConstReg_set_data this x s) this = mem s this"
  by (simp add: NativeMovConstReg_set_data_def mem_set_ptr_at data_byte_offset_def data_offset_rex_def
      data_offset_rex2_def rex_size_def rex2_size_def addr_at_numeral store_intptr_below)

text \<open>
  Claim C7. For a \<^verbatim>\<open>NativeMovConstReg\<close> view, the instruction size, the data offset and
  the next-instruction offset are 11, 3 and 11 when the first byte is the REX2 prefix
  \<open>0xD5\<close>, and 10, 2 and 10 otherwise. \<^verbatim>\<open>set_data(x)\<close> leaves the prefix byte as it was, and
  \<^verbatim>\<open>data()\<close> afterwards returns \<open>x\<close>, read at the offset that the prefix selects.
\<close>

theorem mov_const_reg_layout:
  "NativeMovConstReg_instruction_size m this = (if m this = 0xD5 then 11 else 10) \<and>
   data_byte_offset m this = (if m this = 0xD5 then 3 else 2) \<and>
   next_inst_offset m this = (if m this = 0xD5 then 11 else 10) \<and>
   mem (NativeMovConstReg_set_data this x s) this = mem s this \<and>
   NativeMovConstReg_data (mem (NativeMovConstReg_set_data this x s)) this = x \<and>
   ptr_at (mem (NativeMovConstReg_set_data this x s)) this
     (if mem s this = 0xD5 then 3 else 2) = x"
proof -
  have p: "has_rex2_prefix m this \<longleftrightarrow> m this = 0xD5" for m
    by (simp add: has_rex2_prefix_def ubyte_at_def addr_at_0 Assembler_REX2_def)
  have off: "data_byte_offset m this = (if m this = 0xD5 then 3 else 2)" for m
    by (simp add: data_byte_offset_def p data_offset_rex_def data_offset_rex2_def
        rex_size_def rex2_size_def)
  have sz: "NativeMovConstReg_instruction_size m this = (if m this = 0xD5 then 11 else 10)"
    by (simp add: NativeMovConstReg_instruction_size_def p instruction_size_rex_def
        instruction_size_rex2_def rex_size_def rex2_size_def wordSize_def)
  have nx: "next_inst_offset m this = (if m this = 0xD5 then 11 else 10)"
    by (simp add: next_inst_offset_def p next_instruction_offset_rex_def
        next_instruction_offset_rex2_def instruction_size_rex_def
        instruction_size_rex2_def rex_size_def rex2_size_def wordSize_def)
  have keep: "mem (NativeMovConstReg_set_data this x s) this = mem s this"
    by (rule prefix_after_set_data)
  have rd: "ptr_at (mem (NativeMovConstReg_set_data this x s)) this (data_byte_offset (mem s) this) = x"
    by (simp add: NativeMovConstReg_set_data_def mem_set_ptr_at ptr_at_def load_store_intptr)
  have same: "data_byte_offset (mem (NativeMovConstReg_set_data this x s)) this = data_byte_offset (mem s) this"
    by (simp only: off keep)
  have dt: "NativeMovConstReg_data (mem (NativeMovConstReg_set_data this x s)) this = x"
    by (simp only: NativeMovConstReg_data_def same rd)
  from rd have rd':
    "ptr_at (mem (NativeMovConstReg_set_data this x s)) this
       (if mem s this = 0xD5 then 3 else 2) = x"
    by (simp only: off)
  from sz off nx keep dt rd' show ?thesis by simp
qed

theorem mov_const_reg_layout_witness:
  "NativeMovConstReg_instruction_size mov_rex 0x1000 = 10 \<and>
   data_byte_offset mov_rex 0x1000 = 2 \<and> next_inst_offset mov_rex 0x1000 = 10 \<and>
   NativeMovConstReg_instruction_size mov_rex2 0x1000 = 11 \<and>
   data_byte_offset mov_rex2 0x1000 = 3 \<and> next_inst_offset mov_rex2 0x1000 = 11 \<and>
   NativeMovConstReg_data
     (mem (NativeMovConstReg_set_data 0x1000 0x1122334455667788 (state_of mov_rex))) 0x1000 =
     0x1122334455667788 \<and>
   ptr_at (mem (NativeMovConstReg_set_data 0x1000 0x1122334455667788 (state_of mov_rex)))
     0x1000 2 = 0x1122334455667788 \<and>
   NativeMovConstReg_data
     (mem (NativeMovConstReg_set_data 0x1000 0x1122334455667788 (state_of mov_rex2))) 0x1000 =
     0x1122334455667788 \<and>
   ptr_at (mem (NativeMovConstReg_set_data 0x1000 0x1122334455667788 (state_of mov_rex2)))
     0x1000 3 = 0x1122334455667788"
proof -
  have a: "mov_rex 0x1000 = 0x48" and b: "mov_rex2 0x1000 = 0xD5"
    by (simp_all add: mov_rex_def mov_rex2_def)
  show ?thesis
    using mov_const_reg_layout
        [of mov_rex "0x1000" "0x1122334455667788" "state_of mov_rex"]
      mov_const_reg_layout
        [of mov_rex2 "0x1000" "0x1122334455667788" "state_of mov_rex2"]
    by (simp add: a b state_of_def)
qed

text \<open>Both encodings are immediate loads for the classifier \<^verbatim>\<open>is_mov_literal64\<close>.\<close>

lemma mov_literal64_encodings:
  "is_mov_literal64 mov_rex 0x1000 \<and> is_mov_literal64 mov_rex2 0x1000"
  by (simp add: is_mov_literal64_def has_rex2_prefix_def ubyte_at_def addr_at_0 addr_at_1
      addr_at_numeral mov_rex_def mov_rex2_def zero_memory_def Assembler_REX_W_def
      Assembler_REX_WB_def Assembler_REX2_def Assembler_REX2BIT_W_def
      Assembler_REX2BIT_WB_def Assembler_REX2BIT_WB4_def register_mask_def)

end
